theory Spec2Isabelle
  imports Complex_Main
begin

section \<open>The shark map component: values on the wire\<close>

text \<open>
  The component (\<open>MapGL\<close>) opens a WebSocket and, for every message, parses the text as
  JSON and reconciles the array found under the key \<open>sharks\<close> with the markers it keeps
  under their batch index.

  A parsed JSON value is a \<open>json\<close>. JavaScript numbers are modelled by the reals
  (rounding, overflow and the sign of zero are left out); an object is the list of its
  own properties, read with \<open>map_of\<close>. The value \<open>undefined\<close>, which JSON text cannot
  hold but which every read of a missing property gives, is \<open>None\<close> of \<open>json option\<close>.
\<close>

datatype json =
    JNull
  | JBool bool
  | JNum real
  | JStr string
  | JArr "json list"
  | JObj "(string \<times> json) list"

text \<open>
  What can be thrown: the two errors of the runtime, and the \<open>Error\<close> with the message
  \<open>Position is NaN\<close> that the map library throws.
\<close>

datatype error = SyntaxError | TypeError | PositionIsNaN

text \<open>
  A JavaScript number that arithmetic on a coerced value can give: a real, \<open>NaN\<close> or an
  infinity.
\<close>

datatype jsnum = Num real | NaN | PosInfinity | NegInfinity

text \<open>
  Reading a property (\<open>v.k\<close>, or a destructuring \<open>const { k } = v\<close>): a TypeError on
  \<open>undefined\<close> and \<open>null\<close>, the own property of an object, and \<open>undefined\<close> on a
  boolean, a number, a string or an array. The component reads only the keys \<open>sharks\<close>,
  \<open>position\<close>, \<open>rotation_rad\<close>, \<open>x\<close> and \<open>y\<close>, none of which a primitive, an array or
  \<open>Object.prototype\<close> has.
\<close>

fun get_prop :: "json option \<Rightarrow> string \<Rightarrow> error + json option" where
  "get_prop None k = Inl TypeError"
| "get_prop (Some JNull) k = Inl TypeError"
| "get_prop (Some (JObj kvs)) k = Inr (map_of kvs k)"
| "get_prop (Some v) k = Inr None"

text \<open>Truthiness, as \<open>!v\<close> and \<open>||\<close> test it.\<close>

fun truthy :: "json option \<Rightarrow> bool" where
  "truthy None = False"
| "truthy (Some JNull) = False"
| "truthy (Some (JBool b)) = b"
| "truthy (Some (JNum r)) = (r \<noteq> 0)"
| "truthy (Some (JStr s)) = (s \<noteq> [])"
| "truthy (Some (JArr xs)) = True"
| "truthy (Some (JObj kvs)) = True"

fun isArray :: "json option \<Rightarrow> bool" where
  "isArray (Some (JArr xs)) = True"
| "isArray v = False"

text \<open>
  The coercion to a number that \<open>rotation_rad * 180\<close> applies to its left operand. On
  \<open>undefined\<close>, \<open>null\<close>, booleans and numbers it is written out. On strings, arrays and
  objects it is the runtime's own conversion (parsing the string; \<open>valueOf\<close> and
  \<open>toString\<close> of the object, which can throw), taken as the parameter \<open>conv\<close>.
\<close>

fun ToNumber :: "(json \<Rightarrow> error + jsnum) \<Rightarrow> json option \<Rightarrow> error + jsnum" where
  "ToNumber conv None = Inr NaN"
| "ToNumber conv (Some JNull) = Inr (Num 0)"
| "ToNumber conv (Some (JBool b)) = Inr (Num (if b then 1 else 0))"
| "ToNumber conv (Some (JNum r)) = Inr (Num r)"
| "ToNumber conv (Some v) = conv v"

text \<open>
  \<open>(n * 180) / Math.PI\<close> on a number: \<open>NaN\<close> and the infinities pass through the
  multiplication and the division by positive constants.
\<close>

fun rad_to_deg :: "jsnum \<Rightarrow> jsnum" where
  "rad_to_deg (Num r) = Num ((r * 180) / pi)"
| "rad_to_deg NaN = NaN"
| "rad_to_deg PosInfinity = PosInfinity"
| "rad_to_deg NegInfinity = NegInfinity"

definition degrees :: "(json \<Rightarrow> error + jsnum) \<Rightarrow> json option \<Rightarrow> error + jsnum" where
  "degrees conv rotation_rad =
     (case ToNumber conv rotation_rad of
        Inl e \<Rightarrow> Inl e
      | Inr n \<Rightarrow> Inr (rad_to_deg n))"

section \<open>The rendering surface and the component's state\<close>

text \<open>
  A marker of the map library (outside the repository) is modelled by what the
  component has handed to it: the coordinate pair and the four symbol properties.
  \<open>updateSymbol\<close> merges the given properties into the symbol and leaves the others.

  The library builds a coordinate from the pair \<open>[x, y]\<close>, in \<open>new Marker\<close> and in
  \<open>setCoordinates\<close> alike: it turns \<open>x\<close>, then \<open>y\<close>, into a number with unary plus and
  throws \<open>Position is NaN\<close> when one of them is \<open>NaN\<close>, as a missing coordinate is. The
  pair is accepted otherwise.
\<close>

definition Coordinate ::
  "(json \<Rightarrow> error + jsnum) \<Rightarrow> json option \<times> json option \<Rightarrow>
     error + (json option \<times> json option)" where
  "Coordinate conv xy =
     (case ToNumber conv (fst xy) of
        Inl e \<Rightarrow> Inl e
      | Inr nx \<Rightarrow>
          (case ToNumber conv (snd xy) of
             Inl e \<Rightarrow> Inl e
           | Inr ny \<Rightarrow> if nx = NaN \<or> ny = NaN then Inl PositionIsNaN else Inr xy))"

record Marker =
  coordinates :: "json option \<times> json option"
  markerFile :: string
  markerWidth :: real
  markerHeight :: real
  markerRotation :: jsnum

definition new_Marker :: "json option \<times> json option \<Rightarrow> real \<Rightarrow> jsnum \<Rightarrow> Marker" where
  "new_Marker xy size' deg =
     \<lparr> coordinates = xy,
       markerFile = ''https://cdn-icons-png.flaticon.com/512/9339/9339269.png'',
       markerWidth = size',
       markerHeight = size',
       markerRotation = deg \<rparr>"

definition setCoordinates :: "json option \<times> json option \<Rightarrow> Marker \<Rightarrow> Marker" where
  "setCoordinates xy marker = marker\<lparr>coordinates := xy\<rparr>"

definition updateSymbol_rotation :: "jsnum \<Rightarrow> Marker \<Rightarrow> Marker" where
  "updateSymbol_rotation deg marker = marker\<lparr>markerRotation := deg\<rparr>"

definition updateSymbol_size :: "real \<Rightarrow> Marker \<Rightarrow> Marker" where
  "updateSymbol_size size' marker = marker\<lparr>markerWidth := size', markerHeight := size'\<rparr>"

text \<open>
  The refs of the component. \<open>mapRef\<close> is the zoom that the map reports (\<open>None\<close>: no map
  in the ref); \<open>vectorLayerRef\<close> is the layer, as the keys of the markers added to it in
  order (\<open>None\<close>: no layer in the ref); \<open>sharkMarkersRef\<close> is the object that holds the
  markers under their index; \<open>console\<close> is what \<open>console.error\<close> has printed.
\<close>

record component =
  mapRef :: "real option"
  vectorLayerRef :: "nat list option"
  sharkMarkersRef :: "nat \<rightharpoonup> Marker"
  console :: "error list"


definition mounted :: "real \<Rightarrow> component" where
  "mounted zoom =
     \<lparr> mapRef = Some zoom, vectorLayerRef = Some [], sharkMarkersRef = Map.empty,
       console = [] \<rparr>"

section \<open>Marker size\<close>

definition getMarkerSize :: "real \<Rightarrow> real" where
  "getMarkerSize zoomLevel =
     (let baseSize = 10;
          scaleFactor = (13 / 10) powr (zoomLevel - 2)
      in baseSize * scaleFactor)"

text \<open>The size function as the specification writes it, with its three parameters.\<close>

definition sizeFn :: "real \<Rightarrow> real \<Rightarrow> real \<Rightarrow> real \<Rightarrow> real" where
  "sizeFn baseSize growthFactor referenceZoom zoom =
     baseSize * growthFactor powr (zoom - referenceZoom)"

definition updateAllMarkerSizes :: "component \<Rightarrow> component" where
  "updateAllMarkerSizes c =
     (case mapRef c of
        None \<Rightarrow> c
      | Some currentZoom \<Rightarrow>
          c\<lparr>sharkMarkersRef :=
              map_option (updateSymbol_size (getMarkerSize currentZoom)) \<circ> sharkMarkersRef c\<rparr>)"

section \<open>The message handler\<close>

text \<open>
  The two destructurings at the head of the callback: \<open>position\<close> and \<open>rotation_rad\<close>
  of the record, then \<open>x\<close> and \<open>y\<close> of the position.
\<close>

definition destructure :: "json \<Rightarrow> error + (json option \<times> json option \<times> json option)" where
  "destructure shark =
     (case get_prop (Some shark) ''position'' of
        Inl e \<Rightarrow> Inl e
      | Inr position \<Rightarrow>
          (case get_prop (Some shark) ''rotation_rad'' of
             Inl e \<Rightarrow> Inl e
           | Inr rotation_rad \<Rightarrow>
               (case get_prop position ''x'' of
                  Inl e \<Rightarrow> Inl e
                | Inr x \<Rightarrow>
                    (case get_prop position ''y'' of
                       Inl e \<Rightarrow> Inl e
                     | Inr y \<Rightarrow> Inr (x, y, rotation_rad)))))"

text \<open>
  The callback of \<open>forEach\<close>. It returns the error thrown, if any, with the state as the
  throw leaves it. On the update path \<open>setCoordinates\<close> runs first (a throw of the library
  leaves the marker as it was), then the rotation is computed and \<open>updateSymbol\<close> runs.
  On the create path the rotation is computed with the arguments, then \<open>new Marker\<close>
  runs (a throw of the library leaves no marker), then the marker is stored and added
  to the layer.
\<close>

definition each_shark ::
  "(json \<Rightarrow> error + jsnum) \<Rightarrow> real \<Rightarrow> json \<Rightarrow> nat \<Rightarrow> component \<Rightarrow> error option \<times> component" where
  "each_shark conv size' shark idx c =
     (case destructure shark of
        Inl e \<Rightarrow> (Some e, c)
      | Inr (x, y, rotation_rad) \<Rightarrow>
          (case sharkMarkersRef c idx of
             Some marker \<Rightarrow>
               (case Coordinate conv (x, y) of
                  Inl e \<Rightarrow> (Some e, c)
                | Inr xy \<Rightarrow>
                    (let moved = setCoordinates xy marker;
                         c1 = c\<lparr>sharkMarkersRef := (sharkMarkersRef c)(idx \<mapsto> moved)\<rparr>
                     in case degrees conv rotation_rad of
                          Inl e \<Rightarrow> (Some e, c1)
                        | Inr deg \<Rightarrow>
                            (None, c1\<lparr>sharkMarkersRef :=
                                (sharkMarkersRef c1)(idx \<mapsto> updateSymbol_rotation deg moved)\<rparr>)))
           | None \<Rightarrow>
               (case degrees conv rotation_rad of
                  Inl e \<Rightarrow> (Some e, c)
                | Inr deg \<Rightarrow>
                    (case Coordinate conv (x, y) of
                       Inl e \<Rightarrow> (Some e, c)
                     | Inr xy \<Rightarrow>
                         (let marker = new_Marker xy size' deg
                          in (None,
                              c\<lparr>sharkMarkersRef := (sharkMarkersRef c)(idx \<mapsto> marker),
                                vectorLayerRef :=
                                  map_option (\<lambda>g. g @ [idx]) (vectorLayerRef c)\<rparr>))))))"

text \<open>\<open>Array.prototype.forEach\<close>: the callback on each element with its index, until one throws.\<close>

fun forEach ::
  "('a \<Rightarrow> nat \<Rightarrow> 's \<Rightarrow> error option \<times> 's) \<Rightarrow> 'a list \<Rightarrow> nat \<Rightarrow> 's \<Rightarrow> error option \<times> 's" where
  "forEach f [] idx c = (None, c)"
| "forEach f (x # xs) idx c =
     (case f x idx c of
        (Some e, c') \<Rightarrow> (Some e, c')
      | (None, c') \<Rightarrow> forEach f xs (Suc idx) c')"

text \<open>
  The zoom that the handler reads, \<open>mapRef.current?.getZoom() || zoom\<close>: the prop
  \<open>zoom\<close> when there is no map or the map reports the falsy \<open>0\<close>.
\<close>

definition currentZoom :: "real \<Rightarrow> component \<Rightarrow> real" where
  "currentZoom zoom c =
     (case mapRef c of
        None \<Rightarrow> zoom
      | Some z \<Rightarrow> if z \<noteq> 0 then z else zoom)"

text \<open>
  The part of the handler that the specification calls \<open>onBatch\<close>: the zoom is read,
  the size computed, and the records visited in order.
\<close>

definition onBatch ::
  "real \<Rightarrow> (json \<Rightarrow> error + jsnum) \<Rightarrow> json list \<Rightarrow> component \<Rightarrow> error option \<times> component" where
  "onBatch zoom conv sharks c =
     (let size' = getMarkerSize (currentZoom zoom c)
      in forEach (each_shark conv size') sharks 0 c)"

text \<open>
  The body of the \<open>try\<close>. The argument \<open>parsed\<close> is the outcome of
  \<open>JSON.parse(event.data)\<close>: the error thrown or the value.
\<close>

definition try_block ::
  "real \<Rightarrow> (json \<Rightarrow> error + jsnum) \<Rightarrow> error + json \<Rightarrow> component \<Rightarrow> error option \<times> component" where
  "try_block zoom conv parsed c =
     (case parsed of
        Inl e \<Rightarrow> (Some e, c)
      | Inr data \<Rightarrow>
          (case get_prop (Some data) ''sharks'' of
             Inl e \<Rightarrow> (Some e, c)
           | Inr sharks \<Rightarrow>
               if \<not> truthy sharks \<or> \<not> isArray sharks then (None, c)
               else (case sharks of
                       Some (JArr records) \<Rightarrow> onBatch zoom conv records c
                     | _ \<Rightarrow> (None, c))))"

definition console_error :: "error \<Rightarrow> component \<Rightarrow> component" where
  "console_error err c = c\<lparr>console := console c @ [err]\<rparr>"

text \<open>
  \<open>ws.onmessage\<close>: the \<open>try\<close> with its \<open>catch\<close>. The result is \<open>Inl\<close> when an exception
  leaves the handler and \<open>Inr\<close> of the new state when it returns.
\<close>

definition ws_onmessage ::
  "real \<Rightarrow> (json \<Rightarrow> error + jsnum) \<Rightarrow> error + json \<Rightarrow> component \<Rightarrow> error + component" where
  "ws_onmessage zoom conv parsed c =
     (case try_block zoom conv parsed c of
        (None, c') \<Rightarrow> Inr c'
      | (Some err, c') \<Rightarrow> Inr (console_error err c'))"

section \<open>Events\<close>


definition on_zoomend :: "real \<Rightarrow> component \<Rightarrow> component" where
  "on_zoomend newZoom c =
     updateAllMarkerSizes (c\<lparr>mapRef := map_option (\<lambda>old. newZoom) (mapRef c)\<rparr>)"



section \<open>Notions used to state the properties\<close>

text \<open>
  A record as the interface \<open>SharkData\<close> declares it, as a value on the wire, and a
  message that carries a batch of records.
\<close>

definition SharkData :: "real \<Rightarrow> real \<Rightarrow> real \<Rightarrow> real \<Rightarrow> json" where
  "SharkData x y rotation_rad speed =
     JObj [(''position'', JObj [(''x'', JNum x), (''y'', JNum y)]),
           (''rotation_rad'', JNum rotation_rad),
           (''speed'', JNum speed)]"


text \<open>A conversion for the places where no string, array or object is converted.\<close>

definition no_conv :: "json \<Rightarrow> error + jsnum" where
  "no_conv v = Inr NaN"


text \<open>
  A record on which the callback does not throw: both destructurings succeed, the
  library accepts the coordinates, and the rotation converts.
\<close>

definition record_ok :: "(json \<Rightarrow> error + jsnum) \<Rightarrow> json \<Rightarrow> bool" where
  "record_ok conv shark =
     (case destructure shark of
        Inl e \<Rightarrow> False
      | Inr (x, y, rotation_rad) \<Rightarrow>
          (case Coordinate conv (x, y) of
             Inl e \<Rightarrow> False
           | Inr xy \<Rightarrow>
               (case degrees conv rotation_rad of Inl e \<Rightarrow> False | Inr deg \<Rightarrow> True)))"

text \<open>
  What the callback leaves under its key, given what was there: the summary of
  \<open>each_shark\<close> that the lemmas below prove.
\<close>

definition touched ::
  "(json \<Rightarrow> error + jsnum) \<Rightarrow> real \<Rightarrow> json \<Rightarrow> Marker option \<Rightarrow> Marker option" where
  "touched conv size' shark old =
     (case destructure shark of
        Inl e \<Rightarrow> old
      | Inr (x, y, rotation_rad) \<Rightarrow>
          (case old of
             Some marker \<Rightarrow>
               (case Coordinate conv (x, y) of
                  Inl e \<Rightarrow> Some marker
                | Inr xy \<Rightarrow>
                    (case degrees conv rotation_rad of
                       Inl e \<Rightarrow> Some (setCoordinates xy marker)
                     | Inr deg \<Rightarrow> Some (updateSymbol_rotation deg (setCoordinates xy marker))))
           | None \<Rightarrow>
               (case degrees conv rotation_rad of
                  Inl e \<Rightarrow> None
                | Inr deg \<Rightarrow>
                    (case Coordinate conv (x, y) of
                       Inl e \<Rightarrow> None
                     | Inr xy \<Rightarrow> Some (new_Marker xy size' deg)))))"

text \<open>The number of records that the loop reaches: all of them, or up to the first that throws.\<close>

fun visited :: "(json \<Rightarrow> error + jsnum) \<Rightarrow> json list \<Rightarrow> nat" where
  "visited conv [] = 0"
| "visited conv (shark # rest) = (if record_ok conv shark then Suc (visited conv rest) else 1)"

text \<open>
  The batch that a message carries, if it carries one: the value parsed, it has a
  property \<open>sharks\<close>, and that is an array.
\<close>

definition sharks_of :: "error + json \<Rightarrow> json list option" where
  "sharks_of parsed =
     (case parsed of
        Inl e \<Rightarrow> None
      | Inr data \<Rightarrow>
          (case get_prop (Some data) ''sharks'' of
             Inl e \<Rightarrow> None
           | Inr None \<Rightarrow> None
           | Inr (Some v) \<Rightarrow> (case v of JArr records \<Rightarrow> Some records | _ \<Rightarrow> None)))"




section \<open>The loop, record by record\<close>

lemma each_shark_markers:
  "sharkMarkersRef (snd (each_shark conv sz shark idx c)) =
     (sharkMarkersRef c)(idx := touched conv sz shark (sharkMarkersRef c idx))"
  by (auto simp: each_shark_def touched_def Let_def split: sum.splits option.splits prod.splits)

lemma each_shark_status:
  "fst (each_shark conv sz shark idx c) = None \<longleftrightarrow> record_ok conv shark"
  by (auto simp: each_shark_def record_ok_def Let_def split: sum.splits option.splits prod.splits)

lemma each_shark_mapRef: "mapRef (snd (each_shark conv sz shark idx c)) = mapRef c"
  by (auto simp: each_shark_def Let_def split: sum.splits option.splits prod.splits)

lemma each_shark_console: "console (snd (each_shark conv sz shark idx c)) = console c"
  by (auto simp: each_shark_def Let_def split: sum.splits option.splits prod.splits)


lemma forEach_step:
  "forEach (each_shark conv sz) (shark # rest) idx c =
     (if record_ok conv shark
      then forEach (each_shark conv sz) rest (Suc idx) (snd (each_shark conv sz shark idx c))
      else each_shark conv sz shark idx c)"
proof (cases "each_shark conv sz shark idx c")
  case (Pair r c')
  with each_shark_status [of conv sz shark idx c] show ?thesis
    by (cases r) auto
qed

lemma forEach_markers:
  "sharkMarkersRef (snd (forEach (each_shark conv sz) sharks idx c)) k =
     (if idx \<le> k \<and> k < idx + visited conv sharks
      then touched conv sz (sharks ! (k - idx)) (sharkMarkersRef c k)
      else sharkMarkersRef c k)"
proof (induction sharks arbitrary: idx c)
  case Nil
  show ?case by auto
next
  case (Cons shark rest)
  show ?case
  proof (cases "record_ok conv shark")
    case False
    then show ?thesis
      by (auto simp: forEach_step each_shark_markers simp del: forEach.simps)
  next
    case True
    let ?c1 = "snd (each_shark conv sz shark idx c)"
    have step: "forEach (each_shark conv sz) (shark # rest) idx c =
        forEach (each_shark conv sz) rest (Suc idx) ?c1"
      using True by (simp add: forEach_step del: forEach.simps)
    have rest: "sharkMarkersRef (snd (forEach (each_shark conv sz) rest (Suc idx) ?c1)) k =
        (if Suc idx \<le> k \<and> k < Suc idx + visited conv rest
         then touched conv sz (rest ! (k - Suc idx)) (sharkMarkersRef ?c1 k)
         else sharkMarkersRef ?c1 k)"
      by (rule Cons.IH)
    show ?thesis
    proof (cases "k = idx")
      case True
      with \<open>record_ok conv shark\<close> step rest show ?thesis
        by (simp add: each_shark_markers del: forEach.simps)
    next
      case False
      then have "(shark # rest) ! (k - idx) = rest ! (k - Suc idx)" if "idx \<le> k"
        using that by (simp add: nth_Cons')
      with False \<open>record_ok conv shark\<close> step rest show ?thesis
        by (auto simp: each_shark_markers simp del: forEach.simps)
    qed
  qed
qed

lemma forEach_mapRef: "mapRef (snd (forEach (each_shark conv sz) sharks idx c)) = mapRef c"
  by (induction sharks arbitrary: idx c)
     (simp_all add: forEach_step each_shark_mapRef del: forEach.simps(2))

lemma forEach_console: "console (snd (forEach (each_shark conv sz) sharks idx c)) = console c"
  by (induction sharks arbitrary: idx c)
     (simp_all add: forEach_step each_shark_console del: forEach.simps(2))




lemma visited_le: "visited conv sharks \<le> length sharks"
  by (induction sharks) auto










lemma touched_idem: "touched conv sz shark (touched conv sz shark old) = touched conv sz shark old"
  by (auto simp: touched_def setCoordinates_def updateSymbol_rotation_def new_Marker_def
      split: sum.splits option.splits prod.splits)


lemma touched_keeps:
  "\<exists>m. touched conv sz shark (Some old) = Some m \<and> markerWidth m = markerWidth old \<and>
       markerHeight m = markerHeight old \<and> markerFile m = markerFile old \<and>
       m = old\<lparr>coordinates := coordinates m, markerRotation := markerRotation m\<rparr>"
  by (auto simp: touched_def setCoordinates_def updateSymbol_rotation_def
      split: sum.splits prod.splits)

lemma touched_created:
  assumes "touched conv sz shark None = Some m"
  shows "markerWidth m = sz \<and> markerHeight m = sz"
  using assms
  by (auto simp: touched_def new_Marker_def split: sum.splits prod.splits)

lemma onBatch_forEach:
  "onBatch zoom conv sharks c =
     forEach (each_shark conv (getMarkerSize (currentZoom zoom c))) sharks 0 c"
  by (simp add: onBatch_def)

lemma onBatch_markers:
  "sharkMarkersRef (snd (onBatch zoom conv sharks c)) k =
     (if k < visited conv sharks
      then touched conv (getMarkerSize (currentZoom zoom c)) (sharks ! k) (sharkMarkersRef c k)
      else sharkMarkersRef c k)"
  by (simp add: onBatch_forEach forEach_markers)

lemma onBatch_mapRef: "mapRef (snd (onBatch zoom conv sharks c)) = mapRef c"
  by (simp add: onBatch_forEach forEach_mapRef)

lemma onBatch_console: "console (snd (onBatch zoom conv sharks c)) = console c"
  by (simp add: onBatch_forEach forEach_console)

section \<open>The handler as a whole\<close>

lemma ws_onmessage_returns:
  "ws_onmessage zoom conv parsed c =
     Inr (case fst (try_block zoom conv parsed c) of
            None \<Rightarrow> snd (try_block zoom conv parsed c)
          | Some err \<Rightarrow> console_error err (snd (try_block zoom conv parsed c)))"
  by (simp add: ws_onmessage_def split: prod.splits option.splits)


lemma try_block_no_batch:
  "sharks_of parsed = None \<Longrightarrow>
   try_block zoom conv parsed c =
     (case parsed of
        Inl e \<Rightarrow> (Some e, c)
      | Inr data \<Rightarrow> (if data = JNull then (Some TypeError, c) else (None, c)))"
  apply (cases parsed)
   apply (simp add: try_block_def)
  subgoal for data
    apply (cases data)
    apply (auto simp: sharks_of_def try_block_def split: sum.splits option.splits json.splits)
    done
  done


lemma ws_onmessage_no_batch:
  assumes "sharks_of parsed = None"
  shows "ws_onmessage zoom conv parsed c =
           Inr (case parsed of
                  Inl e \<Rightarrow> console_error e c
                | Inr data \<Rightarrow> if data = JNull then console_error TypeError c else c)"
  using try_block_no_batch [OF assms, of zoom conv c]
  by (cases parsed) (auto simp: ws_onmessage_returns)


section \<open>The set of tracked indices\<close>












section \<open>The size function\<close>

lemma sizeFn_strict_mono:
  assumes "1 < growthFactor" and "0 < baseSize" and "z1 < z2"
  shows "sizeFn baseSize growthFactor referenceZoom z1
           < sizeFn baseSize growthFactor referenceZoom z2"
proof -
  from assms(3) have "z1 - referenceZoom < z2 - referenceZoom" by simp
  with assms(1)
  have "growthFactor powr (z1 - referenceZoom) < growthFactor powr (z2 - referenceZoom)"
    by (simp add: powr_less_mono)
  with assms(2) show ?thesis by (simp add: sizeFn_def)
qed

lemma sizeFn_reference:
  "0 < growthFactor \<Longrightarrow> sizeFn baseSize growthFactor referenceZoom referenceZoom = baseSize"
  by (simp add: sizeFn_def)

lemma getMarkerSize_sizeFn: "getMarkerSize zoom = sizeFn 10 (13 / 10) 2 zoom"
  by (simp add: getMarkerSize_def sizeFn_def)

lemma getMarkerSize_4: "getMarkerSize 4 = 169 / 10"
  by (simp add: getMarkerSize_def power2_eq_square)


text \<open>
  The scenario of the specification: a zoom change from 2 to 4 gives every tracked
  marker the size \<open>10 * 1.3\<^sup>2\<close>.
\<close>

lemma zoomend_resizes:
  assumes "mapRef c = Some z" and "sharkMarkersRef c k = Some old"
  shows "sharkMarkersRef (on_zoomend 4 c) k = Some (updateSymbol_size (169 / 10) old)"
  using assms by (simp add: on_zoomend_def updateAllMarkerSizes_def getMarkerSize_4)


section \<open>The claims\<close>

subsection \<open>Positional identity\<close>




subsection \<open>Last write wins\<close>




subsection \<open>Messages that carry no batch\<close>

text \<open>
  Against claim C3 as it is written: the message \<open>{"notSharks":[]}\<close> parses, has no
  \<open>sharks\<close>, and the handler returns at its guard. The state is the one before, and
  nothing has been printed.
\<close>

theorem malformed_message_silent:
  "ws_onmessage 2 no_conv (Inr (JObj [(''notSharks'', JArr [])])) (mounted 2) = Inr (mounted 2)
   \<and> console (mounted 2) = []"
  by (simp add: ws_onmessage_def try_block_def mounted_def)

text \<open>
  Claim C3, amended. A message that does not parse, or whose value has no array under
  \<open>sharks\<close>, changes no marker, adds none to the layer, and no exception leaves the
  handler. One line is printed when the parse fails or the value is \<open>null\<close> (reading
  \<open>sharks\<close> of \<open>null\<close> throws); nothing is printed in the other cases.
\<close>

theorem discarded_message:
  assumes "sharks_of parsed = None"
  shows "\<exists>c'. ws_onmessage zoom conv parsed c = Inr c'
            \<and> sharkMarkersRef c' = sharkMarkersRef c
            \<and> vectorLayerRef c' = vectorLayerRef c
            \<and> mapRef c' = mapRef c
            \<and> console c' = console c @
                 (case parsed of
                    Inl e \<Rightarrow> [e]
                  | Inr data \<Rightarrow> if data = JNull then [TypeError] else [])"
  using ws_onmessage_no_batch [OF assms, of zoom conv c]
  by (cases parsed) (auto simp: console_error_def)

theorem discarded_message_witness:
  "sharks_of (Inl SyntaxError) = None
   \<and> console (projr (ws_onmessage 2 no_conv (Inl SyntaxError) (mounted 2))) = [SyntaxError]
   \<and> sharkMarkersRef (projr (ws_onmessage 2 no_conv (Inl SyntaxError) (mounted 2))) =
       sharkMarkersRef (mounted 2)"
  using discarded_message [of "Inl SyntaxError" 2 no_conv "mounted 2"]
  by (auto simp: sharks_of_def mounted_def)

subsection \<open>A malformed record within a batch\<close>




subsection \<open>Size by zoom\<close>

text \<open>
  Claim C5. \<open>getMarkerSize\<close> is the size function of the specification at base size 10,
  growth factor 1.3 and reference zoom 2; it is strictly increasing in the zoom, and at
  the reference zoom it is the base size.
\<close>

theorem size_monotone:
  "getMarkerSize zoom = sizeFn 10 (13 / 10) 2 zoom
   \<and> (z1 < z2 \<longrightarrow> getMarkerSize z1 < getMarkerSize z2)
   \<and> getMarkerSize 2 = 10"
proof -
  have "getMarkerSize z1 < getMarkerSize z2" if "z1 < z2"
    unfolding getMarkerSize_sizeFn using that by (intro sizeFn_strict_mono) simp_all
  moreover have "getMarkerSize 2 = 10"
    unfolding getMarkerSize_sizeFn by (simp add: sizeFn_reference)
  ultimately show ?thesis by (simp add: getMarkerSize_sizeFn)
qed

theorem size_monotone_witness:
  "(2::real) < 3 \<and> getMarkerSize 2 < getMarkerSize 3 \<and> getMarkerSize 2 = 10"
  using size_monotone [of 0 2 3] by simp

subsection \<open>Radians to degrees\<close>



subsection \<open>No shrinking\<close>




subsection \<open>Idempotence\<close>

text \<open>
  Claim C8. A batch applied twice in a row leaves the markers that it leaves when
  applied once: the same positions and rotations (and sizes), for every batch and every
  state before.
\<close>

theorem onBatch_idempotent:
  "sharkMarkersRef (snd (onBatch zoom conv B (snd (onBatch zoom conv B c)))) =
   sharkMarkersRef (snd (onBatch zoom conv B c))"
proof
  fix k
  have "currentZoom zoom (snd (onBatch zoom conv B c)) = currentZoom zoom c"
    by (simp add: currentZoom_def onBatch_mapRef)
  then show "sharkMarkersRef (snd (onBatch zoom conv B (snd (onBatch zoom conv B c)))) k =
      sharkMarkersRef (snd (onBatch zoom conv B c)) k"
    by (simp add: onBatch_markers touched_idem)
qed

theorem onBatch_idempotent_witness:
  "sharkMarkersRef (snd (onBatch 2 no_conv [SharkData 1 2 0 0]
      (snd (onBatch 2 no_conv [SharkData 1 2 0 0] (mounted 2))))) 0 =
   Some (new_Marker (Some (JNum 1), Some (JNum 2)) 10 (Num 0))"
  using onBatch_idempotent [of 2 no_conv "[SharkData 1 2 0 0]" "mounted 2"]
  by (simp add: onBatch_def each_shark_def destructure_def degrees_def Coordinate_def
      SharkData_def mounted_def getMarkerSize_def currentZoom_def Let_def)

subsection \<open>The update path leaves the size\<close>

text \<open>
  Claim C9. A marker that exists before a batch exists after it with the width, the
  height and the icon it had: the batch changes at most its coordinates and its
  rotation, whatever the zoom is by then.
\<close>

theorem update_keeps_size:
  assumes "sharkMarkersRef c k = Some old"
  shows "\<exists>m. sharkMarkersRef (snd (onBatch zoom conv sharks c)) k = Some m
           \<and> markerWidth m = markerWidth old
           \<and> markerHeight m = markerHeight old
           \<and> markerFile m = markerFile old
           \<and> m = old\<lparr>coordinates := coordinates m, markerRotation := markerRotation m\<rparr>"
proof (cases "k < visited conv sharks")
  case True
  with touched_keeps [of conv "getMarkerSize (currentZoom zoom c)" "sharks ! k" old] assms
  show ?thesis by (simp add: onBatch_markers)
next
  case False
  with assms show ?thesis by (simp add: onBatch_markers)
qed

theorem update_keeps_size_witness:
  "markerWidth (the (sharkMarkersRef (snd (onBatch 2 no_conv [SharkData 5 5 (pi / 2) 1]
      ((mounted 4)\<lparr>sharkMarkersRef :=
          [0 \<mapsto> new_Marker (Some (JNum 1), Some (JNum 2)) 10 (Num 0)]\<rparr>))) 0)) = 10
   \<and> coordinates (the (sharkMarkersRef (snd (onBatch 2 no_conv [SharkData 5 5 (pi / 2) 1]
      ((mounted 4)\<lparr>sharkMarkersRef :=
          [0 \<mapsto> new_Marker (Some (JNum 1), Some (JNum 2)) 10 (Num 0)]\<rparr>))) 0)) =
       (Some (JNum 5), Some (JNum 5))"
  using update_keeps_size [where k = 0 and zoom = 2 and conv = no_conv
      and sharks = "[SharkData 5 5 (pi / 2) 1]"
      and old = "new_Marker (Some (JNum 1), Some (JNum 2)) 10 (Num 0)"
      and c = "(mounted 4)\<lparr>sharkMarkersRef :=
          [0 \<mapsto> new_Marker (Some (JNum 1), Some (JNum 2)) 10 (Num 0)]\<rparr>"]
  by (simp add: onBatch_def each_shark_def destructure_def degrees_def Coordinate_def
      SharkData_def mounted_def new_Marker_def setCoordinates_def updateSymbol_rotation_def
      Let_def)

subsection \<open>A zoom of zero\<close>



end
